theory Spec2Isabelle
  imports Complex_Main "HOL-Library.Multiset" "HOL-Library.List_Lexorder" "HOL-Library.Char_ord"
begin

section \<open>JavaScript values used by the expense tracker\<close>

text \<open>
  The source is one React component, \<^verbatim>\<open>src/expense-tracker.tsx\<close>. Its engine works on
  strings and on \<^verbatim>\<open>number\<close>s. A \<^verbatim>\<open>number\<close> is an IEEE-754 double; the model keeps the
  three special values apart and represents every finite value by an exact rational, so the
  rounding error of double arithmetic is not part of the model. A string is a list of
  characters; only ASCII white space is recognised by \<open>trim\<close>.
\<close>

datatype jsnum = NaN | Fin rat | PInf | NInf

fun isNaN :: "jsnum \<Rightarrow> bool" where
  "isNaN NaN = True"
| "isNaN _ = False"

text \<open>\<^verbatim>\<open>a + b\<close> on numbers.\<close>

fun js_add :: "jsnum \<Rightarrow> jsnum \<Rightarrow> jsnum" where
  "js_add NaN _ = NaN"
| "js_add _ NaN = NaN"
| "js_add (Fin a) (Fin b) = Fin (a + b)"
| "js_add (Fin a) PInf = PInf"
| "js_add (Fin a) NInf = NInf"
| "js_add PInf (Fin b) = PInf"
| "js_add NInf (Fin b) = NInf"
| "js_add PInf PInf = PInf"
| "js_add NInf NInf = NInf"
| "js_add PInf NInf = NaN"
| "js_add NInf PInf = NaN"

text \<open>
  With this addition and \<open>0\<close> the numbers form a commutative monoid (NaN absorbs, and the
  two infinities add up to NaN), so sums over lists do not depend on the order.
\<close>

instantiation jsnum :: comm_monoid_add
begin

definition zero_jsnum :: jsnum where
  "zero_jsnum = Fin 0"

definition plus_jsnum :: "jsnum \<Rightarrow> jsnum \<Rightarrow> jsnum" where
  "plus_jsnum a b = js_add a b"

instance
proof
  fix a b c :: jsnum
  show "a + b + c = a + (b + c)"
    unfolding plus_jsnum_def by (cases a; cases b; cases c) simp_all
  show "a + b = b + a"
    unfolding plus_jsnum_def by (cases a; cases b) simp_all
  show "0 + a = a"
    unfolding plus_jsnum_def zero_jsnum_def by (cases a) simp_all
qed

end

text \<open>Unary minus, and \<^verbatim>\<open>a - b\<close>.\<close>

fun js_neg :: "jsnum \<Rightarrow> jsnum" where
  "js_neg NaN = NaN"
| "js_neg (Fin a) = Fin (- a)"
| "js_neg PInf = NInf"
| "js_neg NInf = PInf"

definition js_sub :: "jsnum \<Rightarrow> jsnum \<Rightarrow> jsnum" where
  "js_sub a b = js_add a (js_neg b)"

text \<open>\<^verbatim>\<open>a <= b\<close> and \<^verbatim>\<open>a >= b\<close>: false as soon as one side is NaN.\<close>

fun js_le :: "jsnum \<Rightarrow> jsnum \<Rightarrow> bool" where
  "js_le NaN _ = False"
| "js_le _ NaN = False"
| "js_le NInf _ = True"
| "js_le _ PInf = True"
| "js_le (Fin a) (Fin b) = (a \<le> b)"
| "js_le (Fin a) NInf = False"
| "js_le PInf (Fin b) = False"
| "js_le PInf NInf = False"


text \<open>
  \<^verbatim>\<open>parseFloat(x.toFixed(2))\<close> as one function on numbers. \<^verbatim>\<open>toFixed(2)\<close> prints the
  integer \<open>n\<close> for which \<open>n / 100\<close> is closest to the value, the larger \<open>n\<close> on a tie, after
  taking the sign off a negative value; NaN and the infinities print as their names and
  \<^verbatim>\<open>parseFloat\<close> reads all of these back. (From \<open>10\<^sup>2\<^sup>1\<close> on \<^verbatim>\<open>toFixed\<close> prints the
  number itself; a double of that size is an integer, which rounding leaves alone.)
\<close>

definition round_half_up :: "rat \<Rightarrow> rat" where
  "round_half_up x = of_int \<lfloor>100 * x + 1 / 2\<rfloor> / 100"

fun toFixed2 :: "jsnum \<Rightarrow> jsnum" where
  "toFixed2 (Fin x) = Fin (if x < 0 then - round_half_up (- x) else round_half_up x)"
| "toFixed2 v = v"


subsection \<open>Strings\<close>

definition isWhiteSpace :: "char \<Rightarrow> bool" where
  "isWhiteSpace c = (c \<in> set [CHR '' '', CHR 0x09, CHR 0x0A, CHR 0x0B, CHR 0x0C, CHR 0x0D])"

definition trimStart :: "string \<Rightarrow> string" where
  "trimStart s = dropWhile isWhiteSpace s"

definition trim :: "string \<Rightarrow> string" where
  "trim s = rev (dropWhile isWhiteSpace (rev (dropWhile isWhiteSpace s)))"

text \<open>\<^verbatim>\<open>s.split("-")\<close>: never empty, \<^verbatim>\<open>"".split("-")\<close> is \<^verbatim>\<open>[""]\<close>.\<close>

fun split_on :: "char \<Rightarrow> string \<Rightarrow> string list" where
  "split_on sep [] = [[]]"
| "split_on sep (c # cs) =
     (if c = sep then [] # split_on sep cs
      else (case split_on sep cs of
              [] \<Rightarrow> [[c]]
            | w # ws \<Rightarrow> (c # w) # ws))"

subsection \<open>Reading numbers from strings\<close>

definition isDigit :: "char \<Rightarrow> bool" where
  "isDigit c = (c \<in> set ''0123456789'')"

definition digit_val :: "char \<Rightarrow> nat" where
  "digit_val c = of_char c - 48"

text \<open>The value of a digit string in a base, most significant digit first.\<close>

definition digits_val :: "nat \<Rightarrow> nat list \<Rightarrow> nat" where
  "digits_val base ds = foldl (\<lambda>acc d. base * acc + d) 0 ds"

definition starts_with :: "string \<Rightarrow> string \<Rightarrow> bool" where
  "starts_with p s = (take (length p) s = p)"

text \<open>
  The longest prefix of a string that is a \<^verbatim>\<open>StrUnsignedDecimalLiteral\<close> other than
  \<^verbatim>\<open>Infinity\<close>: digits, an optional fraction, an optional exponent; at least one digit
  before the exponent. Returns the value and the rest of the string.
\<close>

definition exponent_part :: "string \<Rightarrow> (int \<times> string) option" where
  "exponent_part s =
     (case s of
        [] \<Rightarrow> None
      | c # r \<Rightarrow>
          if c = CHR ''e'' \<or> c = CHR ''E'' then
            (let (neg, r1) = (case r of
                                [] \<Rightarrow> (False, r)
                              | d # r' \<Rightarrow> if d = CHR ''-'' then (True, r')
                                         else if d = CHR ''+'' then (False, r')
                                         else (False, r));
                 ds = takeWhile isDigit r1
             in if ds = [] then None
                else (let e = int (digits_val 10 (map digit_val ds))
                      in Some (if neg then - e else e, dropWhile isDigit r1)))
          else None)"

definition unsigned_decimal :: "string \<Rightarrow> (rat \<times> string) option" where
  "unsigned_decimal s =
     (let ip = takeWhile isDigit s;
          r1 = dropWhile isDigit s;
          dot = (r1 \<noteq> [] \<and> hd r1 = CHR ''.'');
          fp = (if dot then takeWhile isDigit (tl r1) else []);
          r2 = (if dot then dropWhile isDigit (tl r1) else r1)
      in if ip = [] \<and> fp = [] then None
         else (let m = of_nat (digits_val 10 (map digit_val (ip @ fp))) / 10 ^ length fp
               in (case exponent_part r2 of
                     None \<Rightarrow> Some (m, r2)
                   | Some (e, r3) \<Rightarrow>
                       Some (if e < 0 then m / 10 ^ nat (- e) else m * 10 ^ nat e, r3))))"

text \<open>A \<^verbatim>\<open>StrDecimalLiteral\<close> prefix: an optional sign, then \<^verbatim>\<open>Infinity\<close> or digits.\<close>

definition decimal_literal :: "string \<Rightarrow> (jsnum \<times> string) option" where
  "decimal_literal s =
     (let (neg, r) = (case s of
                        [] \<Rightarrow> (False, s)
                      | c # r' \<Rightarrow> if c = CHR ''-'' then (True, r')
                                 else if c = CHR ''+'' then (False, r')
                                 else (False, s))
      in if starts_with ''Infinity'' r
         then Some (if neg then NInf else PInf, drop 8 r)
         else (case unsigned_decimal r of
                 None \<Rightarrow> None
               | Some (v, rest) \<Rightarrow> Some (Fin (if neg then - v else v), rest)))"

text \<open>\<^verbatim>\<open>parseFloat(s)\<close>: leading white space is skipped, what follows the number is ignored.\<close>

definition parseFloat :: "string \<Rightarrow> jsnum" where
  "parseFloat s = (case decimal_literal (trimStart s) of None \<Rightarrow> NaN | Some (v, _) \<Rightarrow> v)"

text \<open>
  \<^verbatim>\<open>Number(s)\<close> on a string: white space is trimmed at both ends, the empty string is
  \<open>0\<close>, and the whole of the rest must be a decimal literal or a binary, octal or
  hexadecimal integer literal.
\<close>

definition hex_val :: "char \<Rightarrow> nat option" where
  "hex_val c =
     (if isDigit c then Some (digit_val c)
      else if c \<in> set ''abcdef'' then Some (of_char c - 87)
      else if c \<in> set ''ABCDEF'' then Some (of_char c - 55)
      else None)"

definition radix_literal :: "nat \<Rightarrow> string \<Rightarrow> jsnum" where
  "radix_literal base ds =
     (if ds \<noteq> [] \<and> (\<forall>c \<in> set ds. case hex_val c of None \<Rightarrow> False | Some d \<Rightarrow> d < base)
      then Fin (of_nat (digits_val base (map (\<lambda>c. the (hex_val c)) ds)))
      else NaN)"

definition Number :: "string \<Rightarrow> jsnum" where
  "Number s =
     (let t = trim s
      in if t = [] then Fin 0
         else if starts_with ''0x'' t \<or> starts_with ''0X'' t then radix_literal 16 (drop 2 t)
         else if starts_with ''0o'' t \<or> starts_with ''0O'' t then radix_literal 8 (drop 2 t)
         else if starts_with ''0b'' t \<or> starts_with ''0B'' t then radix_literal 2 (drop 2 t)
         else (case decimal_literal t of
                 Some (v, []) \<Rightarrow> v
               | _ \<Rightarrow> NaN))"

section \<open>Dates\<close>

text \<open>
  A \<^verbatim>\<open>Date\<close> is modelled by its time value: NaN for an invalid date, otherwise the
  milliseconds since the epoch. \<^verbatim>\<open>new Date(y, m, d)\<close> reads its arguments in local time;
  the model takes UTC as the local zone, so the time value of a valid date is its day number
  times \<open>86400000\<close>. The steps are those of the language definition: \<^verbatim>\<open>MakeFullYear\<close>
  (years 0 to 99 mean 1900 to 1999), \<^verbatim>\<open>MakeDay\<close> (arguments truncated, months and days
  carried over), \<^verbatim>\<open>TimeClip\<close>.
\<close>

definition js_truncate :: "rat \<Rightarrow> int" where
  "js_truncate x = (if x < 0 then - \<lfloor>- x\<rfloor> else \<lfloor>x\<rfloor>)"

text \<open>Day number of the first day of month \<open>mn\<close> (0 to 11) of year \<open>y\<close>; day 0 is 1970-01-01.\<close>

definition day_of_month_start :: "int \<Rightarrow> int \<Rightarrow> int" where
  "day_of_month_start y mn =
     (let y' = (if mn < 2 then y - 1 else y);
          mp = (mn + 10) mod 12
      in 365 * y' + y' div 4 - y' div 100 + y' div 400 + (153 * mp + 2) div 5 - 719468)"

definition MakeDay :: "int \<Rightarrow> int \<Rightarrow> int \<Rightarrow> int" where
  "MakeDay y m dt = day_of_month_start (y + m div 12) (m mod 12) + dt - 1"

definition MakeFullYear :: "int \<Rightarrow> int" where
  "MakeFullYear y = (if 0 \<le> y \<and> y \<le> 99 then 1900 + y else y)"

definition TimeClip :: "int \<Rightarrow> jsnum" where
  "TimeClip t = (if \<bar>t\<bar> > 8640000000000000 then NaN else Fin (of_int t))"

fun new_Date :: "jsnum \<Rightarrow> jsnum \<Rightarrow> jsnum \<Rightarrow> jsnum" where
  "new_Date (Fin y) (Fin m) (Fin dt) =
     TimeClip (86400000 *
               MakeDay (MakeFullYear (js_truncate y)) (js_truncate m) (js_truncate dt))"
| "new_Date _ _ _ = NaN"

text \<open>An array element that may be missing, converted to a number: \<^verbatim>\<open>undefined\<close> gives NaN.\<close>

definition num_at :: "jsnum list \<Rightarrow> nat \<Rightarrow> jsnum" where
  "num_at xs i = (if i < length xs then xs ! i else NaN)"

definition parseDate :: "string \<Rightarrow> jsnum" where
  "parseDate d =
     (let parts = map Number (split_on CHR ''-'' d);
          y = num_at parts 0;
          m = num_at parts 1;
          da = num_at parts 2
      in new_Date y (js_sub m (Fin 1)) da)"


section \<open>The component's state\<close>

record Expense =
  id_e :: string
  date :: string
  amount :: jsnum
  category :: string
  note_e :: "string option"

datatype SortKey = SortDate | SortAmount | SortCategory

datatype SortDir = Asc | Desc

text \<open>
  The \<^verbatim>\<open>useState\<close> cells of \<^verbatim>\<open>ExpenseTrackerDashboard\<close>: the two collections, the four
  fields of the entry form, the three filter fields and the sort setting.
\<close>

record state =
  expenses :: "Expense list"
  categories :: "string list"
  date_field :: string
  amount_field :: string
  category_field :: string
  note_field :: string
  from_filter :: string
  to_filter :: string
  catFilter :: string
  sortKey :: SortKey
  sortDir :: SortDir

definition DEFAULT_CATEGORIES :: "string list" where
  "DEFAULT_CATEGORIES =
     [''Food'', ''Transport'', ''Bills'', ''Shopping'', ''Entertainment'', ''Health'',
      ''Education'', ''Other'']"

text \<open>The state at mount; \<open>today\<close> is the current day as \<^verbatim>\<open>toISOString().slice(0, 10)\<close> gives it.\<close>

definition initial_state :: "string \<Rightarrow> state" where
  "initial_state today =
     \<lparr>expenses = [], categories = DEFAULT_CATEGORIES, date_field = today, amount_field = [],
      category_field = hd DEFAULT_CATEGORIES, note_field = [], from_filter = [], to_filter = [],
      catFilter = ''ALL'', sortKey = SortDate, sortDir = Desc\<rparr>"

section \<open>Mutations\<close>

text \<open>
  \<^verbatim>\<open>uid()\<close> draws on \<^verbatim>\<open>Math.random()\<close> and \<^verbatim>\<open>Date.now()\<close>; the identifier it
  returned is the argument \<open>new_id\<close> of \<open>addExpense\<close>.
\<close>

definition addExpense :: "string \<Rightarrow> state \<Rightarrow> state" where
  "addExpense new_id s =
     (let amt = parseFloat (amount_field s)
      in if date_field s = [] \<or> isNaN amt \<or> js_le amt (Fin 0) \<or> category_field s = [] then s
         else (let e = \<lparr>id_e = new_id, date = date_field s, amount = toFixed2 amt,
                         category = category_field s, note_e = Some (trim (note_field s))\<rparr>
               in s\<lparr>expenses := e # expenses s, amount_field := [], note_field := []\<rparr>))"

definition removeExpense :: "string \<Rightarrow> state \<Rightarrow> state" where
  "removeExpense i s = s\<lparr>expenses := filter (\<lambda>e. id_e e \<noteq> i) (expenses s)\<rparr>"

text \<open>\<open>confirmed\<close> is the answer of the \<^verbatim>\<open>confirm\<close> dialogue.\<close>

definition clearAll :: "bool \<Rightarrow> state \<Rightarrow> state" where
  "clearAll confirmed s = (if confirmed then s\<lparr>expenses := []\<rparr> else s)"

definition addCategory :: "string \<Rightarrow> state \<Rightarrow> state" where
  "addCategory newCat s =
     (let c = trim newCat
      in if c = [] then s
         else if c \<in> set (categories s) then s
         else s\<lparr>categories := categories s @ [c], category_field := c\<rparr>)"

section \<open>The filtered and sorted view\<close>







section \<open>Aggregates\<close>





section \<open>Export, import and the stored collections\<close>

text \<open>
  \<^verbatim>\<open>JSON.stringify\<close> and \<^verbatim>\<open>JSON.parse\<close> belong to the host. A file is represented by
  what \<^verbatim>\<open>JSON.parse\<close> makes of its text: \<open>None\<close> when it throws a \<^verbatim>\<open>SyntaxError\<close>,
  otherwise the value read. A number that is read may be infinite (\<^verbatim>\<open>1e999\<close>), never NaN.
  An object lists its members in the order of the text.
\<close>

datatype json =
    JNull
  | JBool bool
  | JNum jsnum
  | JStr string
  | JArr "json list"
  | JObj "(string \<times> json) list"

text \<open>\<^verbatim>\<open>JSON.stringify\<close> writes NaN and the infinities as \<^verbatim>\<open>null\<close>.\<close>

fun num_json :: "jsnum \<Rightarrow> json" where
  "num_json (Fin x) = JNum (Fin x)"
| "num_json _ = JNull"

text \<open>A member whose value is \<^verbatim>\<open>undefined\<close> is left out.\<close>

definition expense_json :: "Expense \<Rightarrow> json" where
  "expense_json e =
     JObj ([(''id'', JStr (id_e e)), (''date'', JStr (date e)), (''amount'', num_json (amount e)),
            (''category'', JStr (category e))]
           @ (case note_e e of None \<Rightarrow> [] | Some n \<Rightarrow> [(''note'', JStr n)]))"

text \<open>The value whose text \<^verbatim>\<open>exportJSON\<close> offers as a download.\<close>

definition exportJSON :: "state \<Rightarrow> json" where
  "exportJSON s =
     JObj [(''expenses'', JArr (map expense_json (expenses s))),
           (''categories'', JArr (map JStr (categories s)))]"

text \<open>
  \<^verbatim>\<open>obj.k\<close> on a value that was read: the last member of that name of an object,
  \<^verbatim>\<open>undefined\<close> (\<open>None\<close>) when there is none or the value is no object.
\<close>

fun json_member :: "json \<Rightarrow> string \<Rightarrow> json option" where
  "json_member (JObj kvs) k = map_of (rev kvs) k"
| "json_member _ k = None"

text \<open>
  The source stores what it reads as it is; \<^verbatim>\<open>Expense[]\<close> and \<^verbatim>\<open>string[]\<close> are compile-time
  types only. The model's state is typed, so a value is read into it where it has the shape
  of the type (members beyond those of \<^verbatim>\<open>Expense\<close> are dropped), and a value of another
  shape has no counterpart in the model: the outcome is then \<open>Untyped\<close>.
\<close>

definition expense_of_json :: "json \<Rightarrow> Expense option" where
  "expense_of_json v =
     (case (json_member v ''id'', json_member v ''date'', json_member v ''amount'',
            json_member v ''category'') of
        (Some (JStr i), Some (JStr d), Some (JNum a), Some (JStr c)) \<Rightarrow>
          (case json_member v ''note'' of
             None \<Rightarrow> Some \<lparr>id_e = i, date = d, amount = a, category = c, note_e = None\<rparr>
           | Some (JStr n) \<Rightarrow>
               Some \<lparr>id_e = i, date = d, amount = a, category = c, note_e = Some n\<rparr>
           | Some _ \<Rightarrow> None)
      | _ \<Rightarrow> None)"

fun string_of_json :: "json \<Rightarrow> string option" where
  "string_of_json (JStr c) = Some c"
| "string_of_json _ = None"

text \<open>All elements of a list read through \<open>f\<close>, or \<open>None\<close> when one of them has no reading.\<close>

fun read_all :: "('a \<Rightarrow> 'b option) \<Rightarrow> 'a list \<Rightarrow> 'b list option" where
  "read_all f [] = Some []"
| "read_all f (x # xs) =
     (case f x of
        None \<Rightarrow> None
      | Some y \<Rightarrow> (case read_all f xs of None \<Rightarrow> None | Some ys \<Rightarrow> Some (y # ys)))"

datatype outcome = Done state | Alert string state | Untyped

text \<open>
  The \<^verbatim>\<open>onload\<close> handler of \<^verbatim>\<open>importJSON\<close>. \<^verbatim>\<open>JSON.parse\<close> may throw, and so does
  \<^verbatim>\<open>obj.expenses\<close> when \<open>obj\<close> is \<^verbatim>\<open>null\<close>; both land in the \<^verbatim>\<open>catch\<close>, before any
  \<^verbatim>\<open>set\<close> call. Each of the two members replaces its collection if it is an array.
\<close>

definition importJSON :: "json option \<Rightarrow> state \<Rightarrow> outcome" where
  "importJSON parsed s =
     (case parsed of
        None \<Rightarrow> Alert ''Invalid file'' s
      | Some JNull \<Rightarrow> Alert ''Invalid file'' s
      | Some obj \<Rightarrow>
          (let r1 = (case json_member obj ''expenses'' of
                       Some (JArr xs) \<Rightarrow>
                         (case read_all expense_of_json xs of
                            None \<Rightarrow> None
                          | Some es \<Rightarrow> Some (s\<lparr>expenses := es\<rparr>))
                     | _ \<Rightarrow> Some s)
           in (case r1 of
                 None \<Rightarrow> Untyped
               | Some s1 \<Rightarrow>
                   (case json_member obj ''categories'' of
                      Some (JArr cs) \<Rightarrow>
                        (case read_all string_of_json cs of
                           None \<Rightarrow> Untyped
                         | Some cats \<Rightarrow> Done (s1\<lparr>categories := cats\<rparr>))
                    | _ \<Rightarrow> Done s1))))"



section \<open>Notions used to state the properties\<close>







text \<open>The rational value of a finite number.\<close>

fun is_finite :: "jsnum \<Rightarrow> bool" where
  "is_finite (Fin x) = True"
| "is_finite _ = False"


text \<open>A positive number: positive infinity, or a finite value above zero.\<close>

fun is_positive :: "jsnum \<Rightarrow> bool" where
  "is_positive (Fin x) = (0 < x)"
| "is_positive PInf = True"
| "is_positive _ = False"

definition finite_amounts :: "Expense list \<Rightarrow> bool" where
  "finite_amounts xs = list_all (\<lambda>e. is_finite (amount e)) xs"




text \<open>A finite number with at most two decimals.\<close>

fun two_decimals :: "jsnum \<Rightarrow> bool" where
  "two_decimals (Fin x) = (of_int \<lfloor>100 * x\<rfloor> = 100 * x)"
| "two_decimals _ = False"



subsection \<open>Sample data\<close>

text \<open>The three records of the component's own development checks.\<close>

definition sample :: "Expense list" where
  "sample =
     [\<lparr>id_e = ''1'', date = ''2025-09-01'', amount = Fin 100, category = ''Food'', note_e = None\<rparr>,
      \<lparr>id_e = ''2'', date = ''2025-09-02'', amount = Fin 50, category = ''Food'', note_e = None\<rparr>,
      \<lparr>id_e = ''3'', date = ''2025-09-02'', amount = Fin 20, category = ''Transport'',
       note_e = None\<rparr>]"

text \<open>The state that holds the three records, with the filters and the sort setting of mount.\<close>

definition sample_state :: state where
  "sample_state = (initial_state ''2025-09-10'')\<lparr>expenses := sample\<rparr>"






text \<open>A form whose amount field holds \<^verbatim>\<open>Infinity\<close>.\<close>

definition infinite_form :: state where
  "infinite_form = (initial_state ''2025-09-10'')\<lparr>amount_field := ''Infinity''\<rparr>"

text \<open>
  A file whose one record has the amount \<^verbatim>\<open>1e999\<close>, which \<^verbatim>\<open>JSON.parse\<close> reads as
  infinity, and the record it is read into.
\<close>

definition overflow_file :: json where
  "overflow_file =
     JObj [(''expenses'',
            JArr [JObj [(''id'', JStr ''1''), (''date'', JStr ''2025-09-01''),
                        (''amount'', JNum PInf), (''category'', JStr ''Food'')]])]"

definition overflow_record :: "Expense list" where
  "overflow_record =
     [\<lparr>id_e = ''1'', date = ''2025-09-01'', amount = PInf, category = ''Food'',
       note_e = None\<rparr>]"




text \<open>A form whose date field holds text that is no date.\<close>

definition bad_date_form :: state where
  "bad_date_form = (initial_state ''abc'')\<lparr>amount_field := ''5''\<rparr>"

text \<open>A form whose amount is not positive.\<close>

definition bad_amount_form :: state where
  "bad_amount_form = (initial_state ''2025-09-10'')\<lparr>amount_field := ''-3''\<rparr>"

section \<open>Evaluation lemmas\<close>

lemmas number_reader_defs =
  trimStart_def trim_def isWhiteSpace_def starts_with_def decimal_literal_def
  unsigned_decimal_def exponent_part_def isDigit_def digits_val_def digit_val_def


lemma parseFloat_5: "parseFloat ''5'' = Fin 5"
  by (simp add: parseFloat_def number_reader_defs)

lemma parseFloat_minus_3: "parseFloat ''-3'' = Fin (- 3)"
  by (simp add: parseFloat_def number_reader_defs)

lemma parseFloat_Infinity: "parseFloat ''Infinity'' = PInf"
  by (simp add: parseFloat_def number_reader_defs)

lemma parseDate_abc: "parseDate ''abc'' = NaN"
  by (simp add: parseDate_def Number_def number_reader_defs num_at_def js_sub_def)

lemma floor_rat_divide_numeral:
  "\<lfloor>(numeral a :: rat) / numeral b\<rfloor> = numeral a div numeral b"
  using floor_divide_of_int_eq [of "numeral a" "numeral b", where ?'a = rat] by simp




section \<open>Adding a transaction\<close>





text \<open>
  C2 as the claim has it fails: a date field that is not empty is accepted whether or not it
  parses. Here the date \<^verbatim>\<open>abc\<close> gives an invalid \<^verbatim>\<open>Date\<close> and the transaction is stored.
\<close>

theorem addExpense_unparseable_date_counterexample:
  "isNaN (parseDate (date_field bad_date_form)) \<and>
   expenses (addExpense ''k3f9'' bad_date_form) =
     [\<lparr>id_e = ''k3f9'', date = ''abc'', amount = Fin 5, category = ''Food'',
       note_e = Some []\<rparr>] \<and>
   expenses bad_date_form = []"
  by (simp add: bad_date_form_def initial_state_def parseDate_abc addExpense_def parseFloat_5
      round_half_up_def DEFAULT_CATEGORIES_def trim_def floor_rat_divide_numeral)

text \<open>
  C2, amended. When the date field is empty, or the amount does not parse to a positive number
  (it parses to NaN, to negative infinity, or to a finite value that is not above zero), or
  the category is empty, \<open>addExpense\<close> returns the state as it was: no transaction is created, the
  collection is unchanged, and the form is not cleared.
\<close>

theorem addExpense_rejects:
  assumes "date_field s = [] \<or> \<not> is_positive (parseFloat (amount_field s)) \<or>
           category_field s = []"
  shows "addExpense new_id s = s"
proof -
  have "isNaN amt \<or> js_le amt (Fin 0)" if "\<not> is_positive amt" for amt
    using that by (cases amt) simp_all
  with assms show ?thesis
    by (auto simp add: addExpense_def Let_def)
qed

theorem addExpense_rejects_witness:
  "parseFloat (amount_field bad_amount_form) = Fin (- 3) \<and>
   addExpense ''k3f9'' bad_amount_form = bad_amount_form"
proof -
  have v: "parseFloat (amount_field bad_amount_form) = Fin (- 3)"
    by (simp add: bad_amount_form_def initial_state_def parseFloat_minus_3)
  then have "\<not> is_positive (parseFloat (amount_field bad_amount_form))"
    by simp
  then show ?thesis
    using addExpense_rejects [of bad_amount_form "''k3f9''"] v by blast
qed

section \<open>Frame conditions\<close>

text \<open>
  C10. \<open>addExpense\<close>, \<open>removeExpense\<close> and \<open>clearAll\<close> leave the category collection as it
  was, and \<open>addCategory\<close> leaves the transaction collection as it was.
\<close>

theorem mutators_frame:
  "categories (addExpense new_id s) = categories s \<and>
   categories (removeExpense i s) = categories s \<and>
   categories (clearAll confirmed s) = categories s \<and>
   expenses (addCategory newCat s) = expenses s"
  by (simp add: addExpense_def removeExpense_def clearAll_def addCategory_def Let_def)

section \<open>Import of a malformed file\<close>

text \<open>
  C9. When the text of the file is not well-formed JSON, \<open>importJSON\<close> shows the alert
  \<^verbatim>\<open>Invalid file\<close> and the state, both collections included, is the one before the import.
  More generally, whenever an import ends in the alert, the state is the one before it.
\<close>

theorem importJSON_malformed:
  "importJSON None s = Alert ''Invalid file'' s \<and>
   (importJSON parsed s = Alert msg s' \<longrightarrow> msg = ''Invalid file'' \<and> s' = s)"
proof -
  have "msg = ''Invalid file'' \<and> s' = s" if "importJSON parsed s = Alert msg s'"
  proof (cases parsed)
    case None
    with that show ?thesis
      by (simp add: importJSON_def)
  next
    case (Some obj)
    with that show ?thesis
      by (cases obj)
         (auto simp add: importJSON_def Let_def split: option.splits json.splits)
  qed
  then show ?thesis
    by (simp add: importJSON_def)
qed

theorem importJSON_malformed_witness:
  "importJSON None sample_state = Alert ''Invalid file'' sample_state \<and>
   importJSON (Some JNull) sample_state = Alert ''Invalid file'' sample_state"
  using importJSON_malformed [of sample_state "Some JNull" "''Invalid file''" sample_state]
  by (simp add: importJSON_def)

section \<open>The sort\<close>












section \<open>The comparison function\<close>

lemma parseDate_cases: "parseDate d = NaN \<or> (\<exists>t. parseDate d = Fin t)"
proof -
  have "new_Date y m da = NaN \<or> (\<exists>t. new_Date y m da = Fin t)" for y m da
    by (cases y; cases m; cases da) (simp_all add: TimeClip_def)
  then show ?thesis
    by (simp add: parseDate_def Let_def)
qed











section \<open>The view: filter, order, stability\<close>






section \<open>The total\<close>



section \<open>Grouping\<close>




















lemma two_decimals_finite: "two_decimals v \<Longrightarrow> is_finite v"
  by (cases v) simp_all






section \<open>Totals by category\<close>

lemma finite_sample: "finite_amounts sample"
  by (simp add: finite_amounts_def sample_def)





section \<open>Totals by month\<close>







section \<open>Export and import\<close>

lemma expense_of_json_expense_json:
  assumes "is_finite (amount e)"
  shows "expense_of_json (expense_json e) = Some e"
proof -
  obtain x where x: "amount e = Fin x"
    using assms by (cases "amount e") simp_all
  show ?thesis
  proof (cases "note_e e")
    case None
    with x show ?thesis
      by (simp add: expense_of_json_def expense_json_def)
  next
    case (Some n)
    with x show ?thesis
      by (simp add: expense_of_json_def expense_json_def)
  qed
qed

lemma read_all_map:
  "(\<And>x. x \<in> set xs \<Longrightarrow> f (g x) = Some x) \<Longrightarrow> read_all f (map g xs) = Some xs"
  by (induction xs) simp_all

lemma read_all_expenses:
  "finite_amounts es \<Longrightarrow> read_all expense_of_json (map expense_json es) = Some es"
  by (rule read_all_map) (simp add: finite_amounts_def list_all_iff expense_of_json_expense_json)

lemma read_all_categories: "read_all string_of_json (map JStr cs) = Some cs"
  by (rule read_all_map) simp

text \<open>
  C6 as the claim has it fails for a state that holds an amount that is not finite:
  \<^verbatim>\<open>JSON.stringify\<close> writes it as \<^verbatim>\<open>null\<close>, so the import does not give the amount back.
  Such a state is reached by importing a file with the amount \<^verbatim>\<open>1e999\<close>, and it is what
  \<open>addExpense\<close> makes of the amount \<^verbatim>\<open>Infinity\<close>.
\<close>

theorem import_export_infinite_counterexample:
  "importJSON (Some overflow_file) (initial_state ''2025-09-10'') =
     Done ((initial_state ''2025-09-10'')\<lparr>expenses := overflow_record\<rparr>) \<and>
   importJSON (Some (exportJSON ((initial_state ''2025-09-10'')\<lparr>expenses := overflow_record\<rparr>)))
     ((initial_state ''2025-09-10'')\<lparr>expenses := overflow_record\<rparr>) = Untyped \<and>
   map amount (expenses (addExpense ''k3f9'' infinite_form)) = [PInf] \<and>
   importJSON (Some (exportJSON (addExpense ''k3f9'' infinite_form)))
     (addExpense ''k3f9'' infinite_form) = Untyped"
  by (simp add: infinite_form_def initial_state_def addExpense_def parseFloat_Infinity
      DEFAULT_CATEGORIES_def importJSON_def exportJSON_def expense_json_def
      expense_of_json_def overflow_file_def overflow_record_def)

text \<open>
  C6, amended. For every state whose amounts are all finite, importing the file that
  \<open>exportJSON\<close> wrote puts the exported transactions and categories in place of those of
  the importing state; imported into the exporting state itself, it gives that state back.
\<close>

theorem import_export_roundtrip:
  assumes "finite_amounts (expenses s)"
  shows "importJSON (Some (exportJSON s)) s0 =
           Done (s0\<lparr>expenses := expenses s, categories := categories s\<rparr>) \<and>
         importJSON (Some (exportJSON s)) s = Done s"
  using assms
  by (simp add: importJSON_def exportJSON_def read_all_expenses read_all_categories)

theorem import_export_roundtrip_witness:
  "finite_amounts (expenses sample_state) \<and>
   importJSON (Some (exportJSON sample_state)) (initial_state ''2026-01-01'') =
     Done ((initial_state ''2026-01-01'')\<lparr>expenses := sample\<rparr>) \<and>
   importJSON (Some (exportJSON sample_state)) sample_state = Done sample_state"
proof -
  have f: "finite_amounts (expenses sample_state)"
    by (simp add: sample_state_def finite_sample)
  show ?thesis
    using import_export_roundtrip [OF f, of "initial_state ''2026-01-01''"] f
    by (simp add: sample_state_def initial_state_def)
qed

section \<open>Identifiers\<close>






end
